theory Spec2Isabelle
  imports Main "HOL-Library.Multiset"
begin

section \<open>Letter Challenge server: dictionary and letter helpers (server.js, lines 158-230)\<close>

text \<open>
  Strings are lists of characters; the letter arrays of the server (arrays of
  one-character strings) are lists of characters as well. \<open>toLowerCase\<close> is modelled on
  the ASCII letters, the only ones the server's alphabet contains.
\<close>

definition toLowerCase_char :: "char \<Rightarrow> char" where
  "toLowerCase_char c =
     (case map_of (zip ''ABCDEFGHIJKLMNOPQRSTUVWXYZ'' ''abcdefghijklmnopqrstuvwxyz'') c of
        None \<Rightarrow> c
      | Some l \<Rightarrow> l)"

definition toLowerCase :: "string \<Rightarrow> string" where
  "toLowerCase s = map toLowerCase_char s"

text \<open>
  \<open>serverDictionary\<close> is a JavaScript \<open>Set\<close> of lower-cased words, iterated in
  insertion order: a list of words. Its \<open>size\<close> is zero exactly when the list is empty.
\<close>

type_synonym dictionary = "string list"

text \<open>
  \<open>canMake\<close> (lines 210-218): \<open>counts\<close> is the object built by the \<open>forEach\<close>;
  a missing key reads \<open>undefined\<close> (\<open>None\<close>), and \<open>!counts[ch]\<close> holds for a missing
  key and for the count 0.
\<close>

definition count_letter :: "char \<Rightarrow> (char \<rightharpoonup> nat) \<Rightarrow> (char \<rightharpoonup> nat)" where
  "count_letter l counts = counts(l \<mapsto> (case counts l of None \<Rightarrow> 0 | Some c \<Rightarrow> c) + 1)"

fun canMake_loop :: "(char \<rightharpoonup> nat) \<Rightarrow> string \<Rightarrow> bool" where
  "canMake_loop counts [] = True"
| "canMake_loop counts (ch # rest) =
     (case counts ch of
        None \<Rightarrow> False
      | Some c \<Rightarrow> if c = 0 then False else canMake_loop (counts(ch \<mapsto> c - 1)) rest)"

definition canMake :: "string \<Rightarrow> string \<Rightarrow> bool" where
  "canMake word lettersArr = canMake_loop (fold count_letter lettersArr Map.empty) word"

text \<open>\<open>isWordValid\<close> (lines 219-223).\<close>

definition isWordValid :: "dictionary \<Rightarrow> string \<Rightarrow> string \<Rightarrow> bool" where
  "isWordValid serverDictionary word lettersArr =
     (if serverDictionary \<noteq> [] \<and> \<not> List.member serverDictionary (toLowerCase word) then False
      else canMake word (toLowerCase lettersArr))"

text \<open>
  \<open>countDictionaryMatches\<close> (lines 197-208): the loop over the dictionary with its
  \<open>continue\<close> for short words and its \<open>break\<close> at 1000 matches.
\<close>

fun count_loop :: "nat \<Rightarrow> string \<Rightarrow> dictionary \<Rightarrow> nat" where
  "count_loop cnt letters [] = cnt"
| "count_loop cnt letters (word # rest) =
     (if length word < 2 then count_loop cnt letters rest
      else if 1000 \<le> (if canMake word letters then cnt + 1 else cnt)
           then (if canMake word letters then cnt + 1 else cnt)
           else count_loop (if canMake word letters then cnt + 1 else cnt) letters rest)"

definition countDictionaryMatches :: "dictionary \<Rightarrow> string \<Rightarrow> nat" where
  "countDictionaryMatches serverDictionary lettersArr =
     (if serverDictionary = [] then 5
      else count_loop 0 (toLowerCase lettersArr) serverDictionary)"

text \<open>
  \<open>shuffleArray\<close> (lines 224-230) permutes its argument in place and returns it.
  \<open>Math.random\<close> is an explicit sequence of draws \<open>rnd\<close>; the state is the number of
  draws made so far, and the draw used at index \<open>i\<close> is reduced to \<open>0..i\<close>, the range of
  \<open>Math.floor(Math.random()*(i+1))\<close>. The loop runs \<open>i\<close> from \<open>length - 1\<close> down to 1.
\<close>

fun shuffle_loop :: "(nat \<Rightarrow> nat) \<Rightarrow> nat \<Rightarrow> 'a list \<Rightarrow> nat \<Rightarrow> 'a list \<times> nat" where
  "shuffle_loop rnd 0 array k = (array, k)"
| "shuffle_loop rnd (Suc i) array k =
     shuffle_loop rnd i
       (array[Suc i := array ! (rnd k mod (Suc i + 1)), rnd k mod (Suc i + 1) := array ! Suc i])
       (k + 1)"

definition shuffleArray :: "(nat \<Rightarrow> nat) \<Rightarrow> 'a list \<Rightarrow> nat \<Rightarrow> 'a list \<times> nat" where
  "shuffleArray rnd array k = shuffle_loop rnd (length array - 1) array k"

text \<open>
  \<open>pickLettersWithAtLeastNWords\<close> (lines 186-195). \<open>alpha\<close> is one array for the
  whole call: \<open>shuffleArray(alpha)\<close> permutes it in place and returns the same array, so
  the next attempt and the fallback \<open>alpha.slice(0, size)\<close> read the permuted array.
  \<open>pick_loop\<close> is the \<open>for\<close> loop with the number of attempts left.
\<close>

definition alphabet :: string where
  "alphabet = ''ABCDEFGHIJKLMNOPQRSTUVWXYZ''"

fun pick_loop ::
  "dictionary \<Rightarrow> (nat \<Rightarrow> nat) \<Rightarrow> nat \<Rightarrow> nat \<Rightarrow> nat \<Rightarrow> string \<Rightarrow> nat \<Rightarrow> string \<times> nat" where
  "pick_loop dict rnd 0 sz n alpha k = (take sz alpha, k)"
| "pick_loop dict rnd (Suc attempts) sz n alpha k =
     (if n \<le> countDictionaryMatches dict (take sz (fst (shuffleArray rnd alpha k)))
      then (take sz (fst (shuffleArray rnd alpha k)), snd (shuffleArray rnd alpha k))
      else pick_loop dict rnd attempts sz n
             (fst (shuffleArray rnd alpha k)) (snd (shuffleArray rnd alpha k)))"

definition pickLettersWithAtLeastNWords ::
  "dictionary \<Rightarrow> (nat \<Rightarrow> nat) \<Rightarrow> nat \<Rightarrow> nat \<Rightarrow> nat \<Rightarrow> string \<times> nat" where
  "pickLettersWithAtLeastNWords dict rnd sz n k = pick_loop dict rnd 10000 sz n alphabet k"

section \<open>Game state and the move transition (server.js, lines 123-147 and 169-184)\<close>

text \<open>An entry of \<open>foundWords\<close> is the object \<open>{ word, by }\<close>; \<open>by\<close> is the player
  index exactly as the client sent it (the field is \<open>by_player\<close> here, \<open>by\<close> being a
  keyword). Scores and lengths are natural numbers, the player index of a payload is an
  integer.\<close>

record found =
  word :: string
  by_player :: int

record GameState =
  mode :: string
  letters :: string
  turn :: nat
  p1Score :: nat
  p2Score :: nat
  foundWords :: "found list"
  foundWordsSet :: "string set"

text \<open>\<open>initGameState\<close> (lines 169-184); the second component is the number of random
  draws made so far.\<close>

definition initGameState :: "dictionary \<Rightarrow> (nat \<Rightarrow> nat) \<Rightarrow> string \<Rightarrow> nat \<Rightarrow> GameState \<times> nat" where
  "initGameState dict rnd m k =
     (\<lparr> mode = m,
        letters = fst (pickLettersWithAtLeastNWords dict rnd
                    (if m = ''basic'' then 5 else if m = ''terrible'' then 10 else 20) 3 k),
        turn = 1,
        p1Score = 0,
        p2Score = 0,
        foundWords = [],
        foundWordsSet = {} \<rparr>,
      snd (pickLettersWithAtLeastNWords dict rnd
             (if m = ''basic'' then 5 else if m = ''terrible'' then 10 else 20) 3 k))"

text \<open>
  The body of the \<open>submit-word\<close> handler once the room and its state are found
  (lines 128-143): an empty \<open>word\<close> is dropped without a reply, a duplicate or an
  invalid word is rejected with its reason, any other word is accepted.
\<close>

datatype outcome = Ignored | Rejected string | Accepted GameState

definition submit_word :: "dictionary \<Rightarrow> GameState \<Rightarrow> string \<Rightarrow> int \<Rightarrow> outcome" where
  "submit_word dict st w playerIndex =
     (if w = [] then Ignored
      else if w \<in> foundWordsSet st then Rejected ''already-found''
      else if \<not> isWordValid dict w (letters st) then Rejected ''invalid-word''
      else Accepted (st\<lparr> foundWords := foundWords st @ [\<lparr> word = w, by_player = playerIndex \<rparr>],
                         foundWordsSet := insert w (foundWordsSet st),
                         p1Score := (if playerIndex = 1 then p1Score st + length w else p1Score st),
                         p2Score := (if playerIndex = 1 then p2Score st else p2Score st + length w),
                         turn := (if playerIndex = 1 then 2 else 1) \<rparr>))"

text \<open>A sequence of submissions every one of which is accepted; \<open>None\<close> as soon as one
  is dropped or rejected.\<close>

fun accepted_moves :: "dictionary \<Rightarrow> GameState \<Rightarrow> (string \<times> int) list \<Rightarrow> GameState option" where
  "accepted_moves dict st [] = Some st"
| "accepted_moves dict st ((w, playerIndex) # rest) =
     (case submit_word dict st w playerIndex of
        Accepted st' \<Rightarrow> accepted_moves dict st' rest
      | Rejected reason \<Rightarrow> None
      | Ignored \<Rightarrow> None)"

text \<open>The sum of the lengths of the found words whose \<open>by\<close> satisfies \<open>P\<close>.\<close>

definition score_of :: "(int \<Rightarrow> bool) \<Rightarrow> found list \<Rightarrow> nat" where
  "score_of P fws = sum_list (map (\<lambda>f. length (word f)) (filter (\<lambda>f. P (by_player f)) fws))"

section \<open>Rooms, the waiting queue and the message handlers (server.js, lines 27-156)\<close>

text \<open>
  A connection is the identity of its socket object. The server's state is the \<open>rooms\<close>
  map, the \<open>waiting\<close> array, the \<open>roomId\<close> field of every socket (\<open>null\<close> from the
  moment of connection, line 40) and the number of random draws made so far. The \<open>id\<close>
  field of a room is \<open>rid\<close> here.
\<close>

type_synonym conn = nat

record room =
  rid :: string
  players :: "conn list"
  state :: "GameState option"

record sys =
  rooms :: "string \<rightharpoonup> room"
  waiting :: "conn list"
  roomId :: "conn \<Rightarrow> string option"
  draws :: nat

definition init_sys :: sys where
  "init_sys = \<lparr> rooms = Map.empty, waiting = [], roomId = (\<lambda>c. None), draws = 0 \<rparr>"

text \<open>Inbound messages with the payload fields the handlers read: \<open>roomId\<close> and
  \<open>word\<close> are strings, \<open>playerIndex\<close> is an integer, \<open>mode\<close> may be missing.
  \<open>Other\<close> is a message of any other type.\<close>

datatype msg =
    CreateRoom
  | JoinRoom string "string option"
  | QuickMatch "string option"
  | StartGame "string option"
  | SubmitWord string int
  | GetState
  | Other

datatype reply =
    RoomCreated string
  | ErrorMsg string
  | RoomJoined string nat GameState
  | Matched string nat GameState
  | Waiting
  | GameStart GameState nat
  | MoveRejected string
  | StateUpdate "GameState option"
  | PeerLeft

type_synonym outbox = "(conn \<times> reply) list"

text \<open>\<open>payload.mode || "versus"\<close>: a missing or empty mode is \<open>"versus"\<close>.\<close>

definition mode_or_versus :: "string option \<Rightarrow> string" where
  "mode_or_versus m = (case m of None \<Rightarrow> ''versus'' | Some v \<Rightarrow> if v = [] then ''versus'' else v)"

text \<open>\<open>rooms.get(ws.roomId)\<close>.\<close>

definition room_of :: "sys \<Rightarrow> conn \<Rightarrow> room option" where
  "room_of s ws = (case roomId s ws of None \<Rightarrow> None | Some r \<Rightarrow> rooms s r)"

text \<open>\<open>players.forEach((p, i) => send(p, ..., i + 1))\<close>.\<close>

definition to_players :: "conn list \<Rightarrow> (nat \<Rightarrow> reply) \<Rightarrow> outbox" where
  "to_players ps f = map (\<lambda>(i, p). (p, f (i + 1))) (enumerate 0 ps)"

text \<open>\<open>create-room\<close> (lines 62-73); \<open>newId\<close> is the value \<open>makeId(3)\<close> returns.\<close>

definition create_room :: "string \<Rightarrow> conn \<Rightarrow> sys \<Rightarrow> sys \<times> outbox" where
  "create_room newId ws s =
     (s\<lparr> rooms := (rooms s)(newId \<mapsto> \<lparr> rid = newId, players = [ws], state = None \<rparr>),
         roomId := (roomId s)(ws := Some newId) \<rparr>,
      [(ws, RoomCreated newId)])"

text \<open>\<open>join-room\<close> (lines 76-91).\<close>

definition join_room ::
  "dictionary \<Rightarrow> (nat \<Rightarrow> nat) \<Rightarrow> conn \<Rightarrow> string \<Rightarrow> string option \<Rightarrow> sys \<Rightarrow> sys \<times> outbox" where
  "join_room dict rnd ws r m s =
     (case rooms s r of
        None \<Rightarrow> (s, [(ws, ErrorMsg ''Room not found'')])
      | Some rm \<Rightarrow>
          if 2 \<le> length (players rm) then (s, [(ws, ErrorMsg ''Room full'')])
          else
            (s\<lparr> rooms := (rooms s)(r \<mapsto>
                   rm\<lparr> players := players rm @ [ws],
                       state := Some (fst (initGameState dict rnd (mode_or_versus m) (draws s))) \<rparr>),
                roomId := (roomId s)(ws := Some r),
                draws := snd (initGameState dict rnd (mode_or_versus m) (draws s)) \<rparr>,
             to_players (players rm @ [ws])
               (\<lambda>i. RoomJoined r i (fst (initGameState dict rnd (mode_or_versus m) (draws s))))))"

text \<open>\<open>quick-match\<close> (lines 94-110).\<close>

definition quick_match ::
  "dictionary \<Rightarrow> (nat \<Rightarrow> nat) \<Rightarrow> string \<Rightarrow> conn \<Rightarrow> string option \<Rightarrow> sys \<Rightarrow> sys \<times> outbox" where
  "quick_match dict rnd newId ws m s =
     (case waiting s of
        peer # rest \<Rightarrow>
          (s\<lparr> waiting := rest,
              rooms := (rooms s)(newId \<mapsto>
                 \<lparr> rid = newId, players = [peer, ws],
                   state = Some (fst (initGameState dict rnd (mode_or_versus m) (draws s))) \<rparr>),
              roomId := (roomId s)(peer := Some newId, ws := Some newId),
              draws := snd (initGameState dict rnd (mode_or_versus m) (draws s)) \<rparr>,
           [(peer, Matched newId 1 (fst (initGameState dict rnd (mode_or_versus m) (draws s)))),
            (ws, Matched newId 2 (fst (initGameState dict rnd (mode_or_versus m) (draws s))))])
      | [] \<Rightarrow> (s\<lparr> waiting := [ws] \<rparr>, [(ws, Waiting)]))"

text \<open>\<open>start-game\<close> (lines 113-121).\<close>

definition start_game ::
  "dictionary \<Rightarrow> (nat \<Rightarrow> nat) \<Rightarrow> conn \<Rightarrow> string option \<Rightarrow> sys \<Rightarrow> sys \<times> outbox" where
  "start_game dict rnd ws m s =
     (case roomId s ws of
        None \<Rightarrow> (s, [])
      | Some r \<Rightarrow>
         (case rooms s r of
            None \<Rightarrow> (s, [])
          | Some rm \<Rightarrow>
             (case state rm of
                Some st \<Rightarrow> (s, to_players (players rm) (\<lambda>i. GameStart st i))
              | None \<Rightarrow>
                 (s\<lparr> rooms := (rooms s)(r \<mapsto>
                        rm\<lparr> state := Some (fst (initGameState dict rnd (mode_or_versus m) (draws s))) \<rparr>),
                     draws := snd (initGameState dict rnd (mode_or_versus m) (draws s)) \<rparr>,
                  to_players (players rm)
                    (\<lambda>i. GameStart (fst (initGameState dict rnd (mode_or_versus m) (draws s))) i)))))"

text \<open>\<open>submit-word\<close> (lines 124-147).\<close>

definition submit_word_handler :: "dictionary \<Rightarrow> conn \<Rightarrow> string \<Rightarrow> int \<Rightarrow> sys \<Rightarrow> sys \<times> outbox" where
  "submit_word_handler dict ws w playerIndex s =
     (case roomId s ws of
        None \<Rightarrow> (s, [])
      | Some r \<Rightarrow>
         (case rooms s r of
            None \<Rightarrow> (s, [])
          | Some rm \<Rightarrow>
             (case state rm of
                None \<Rightarrow> (s, [])
              | Some st \<Rightarrow>
                 (case submit_word dict st w playerIndex of
                    Ignored \<Rightarrow> (s, [])
                  | Rejected reason \<Rightarrow> (s, [(ws, MoveRejected reason)])
                  | Accepted st' \<Rightarrow>
                     (s\<lparr> rooms := (rooms s)(r \<mapsto> rm\<lparr> state := Some st' \<rparr>) \<rparr>,
                      map (\<lambda>p. (p, StateUpdate (Some st'))) (players rm))))))"

text \<open>\<open>get-state\<close> (lines 150-154).\<close>

definition get_state :: "conn \<Rightarrow> sys \<Rightarrow> sys \<times> outbox" where
  "get_state ws s =
     (case room_of s ws of
        None \<Rightarrow> (s, [])
      | Some rm \<Rightarrow> (s, [(ws, StateUpdate (state rm))]))"

text \<open>The \<open>message\<close> listener (lines 56-155), after the payload is parsed.\<close>

fun on_message ::
  "dictionary \<Rightarrow> (nat \<Rightarrow> nat) \<Rightarrow> string \<Rightarrow> conn \<Rightarrow> msg \<Rightarrow> sys \<Rightarrow> sys \<times> outbox" where
  "on_message dict rnd newId ws CreateRoom s = create_room newId ws s"
| "on_message dict rnd newId ws (JoinRoom r m) s = join_room dict rnd ws r m s"
| "on_message dict rnd newId ws (QuickMatch m) s = quick_match dict rnd newId ws m s"
| "on_message dict rnd newId ws (StartGame m) s = start_game dict rnd ws m s"
| "on_message dict rnd newId ws (SubmitWord w playerIndex) s = submit_word_handler dict ws w playerIndex s"
| "on_message dict rnd newId ws GetState s = get_state ws s"
| "on_message dict rnd newId ws Other s = (s, [])"

text \<open>
  The \<open>close\<close> listener (lines 43-54). \<open>isOpen p\<close> says whether \<open>p.readyState\<close> is
  \<open>OPEN\<close> when the listener runs. \<open>ws.roomId\<close> is truthy when it is a non-empty string.
\<close>

definition on_close :: "(conn \<Rightarrow> bool) \<Rightarrow> conn \<Rightarrow> sys \<Rightarrow> sys \<times> outbox" where
  "on_close isOpen ws s =
     (case roomId s ws of
        None \<Rightarrow> (s\<lparr> waiting := remove1 ws (waiting s) \<rparr>, [])
      | Some r \<Rightarrow>
         (if r = [] then (s\<lparr> waiting := remove1 ws (waiting s) \<rparr>, [])
          else
           (case rooms s r of
              None \<Rightarrow> (s\<lparr> waiting := remove1 ws (waiting s) \<rparr>, [])
            | Some rm \<Rightarrow>
               (s\<lparr> rooms := (rooms s)(r := None) \<rparr>,
                map (\<lambda>p. (p, PeerLeft)) (filter (\<lambda>p. p \<noteq> ws \<and> isOpen p) (players rm))))))"

text \<open>An event of the server: a message from a connection, together with the identifier
  \<open>makeId(3)\<close> would return while it is handled, or the closing of a connection.\<close>

datatype event = Message string conn msg | Close "conn \<Rightarrow> bool" conn

fun step :: "dictionary \<Rightarrow> (nat \<Rightarrow> nat) \<Rightarrow> event \<Rightarrow> sys \<Rightarrow> sys \<times> outbox" where
  "step dict rnd (Message newId ws m) s = on_message dict rnd newId ws m s"
| "step dict rnd (Close isOpen ws) s = on_close isOpen ws s"

fun run :: "dictionary \<Rightarrow> (nat \<Rightarrow> nat) \<Rightarrow> event list \<Rightarrow> sys \<Rightarrow> sys" where
  "run dict rnd [] s = s"
| "run dict rnd (e # es) s = run dict rnd es (fst (step dict rnd e s))"

section \<open>Notions used to state the properties\<close>

text \<open>The number of copies of \<open>c\<close> that the \<open>counts\<close> object of \<open>canMake\<close> still allows.\<close>

definition cnt_of :: "(char \<rightharpoonup> nat) \<Rightarrow> char \<Rightarrow> nat" where
  "cnt_of counts c = (case counts c of None \<Rightarrow> 0 | Some n \<Rightarrow> n)"

text \<open>
  The specification's \<open>canFormFromLetters\<close>, written from its words and not from the
  code: with upper and lower case identified, the characters of the word form a
  sub-multiset of the letters.
\<close>

definition canFormFromLetters_spec :: "string \<Rightarrow> string \<Rightarrow> bool" where
  "canFormFromLetters_spec w ls \<longleftrightarrow> mset (toLowerCase w) \<subseteq># mset (toLowerCase ls)"

text \<open>The \<open>foundWords\<close> entry an accepted submission appends.\<close>

definition as_found :: "string \<times> int \<Rightarrow> found" where
  "as_found mv = \<lparr> word = fst mv, by_player = snd mv \<rparr>"

text \<open>The array \<open>alpha\<close> and the draw counter after \<open>m\<close> calls of \<open>shuffleArray\<close> on it.\<close>

fun shuffle_times :: "(nat \<Rightarrow> nat) \<Rightarrow> nat \<Rightarrow> 'a list \<Rightarrow> nat \<Rightarrow> 'a list \<times> nat" where
  "shuffle_times rnd 0 alpha k = (alpha, k)"
| "shuffle_times rnd (Suc m) alpha k =
     shuffle_times rnd m (fst (shuffleArray rnd alpha k)) (snd (shuffleArray rnd alpha k))"

text \<open>
  A host alone in its room: connection 0 creates room \<open>b2e\<close>, starts a \<open>basic\<close> game
  and finds the word \<open>b\<close>; no dictionary is loaded and every random draw is 0.
\<close>

definition host_playing :: sys where
  "host_playing = run [] (\<lambda>k. 0)
     [Message ''b2e'' 0 CreateRoom,
      Message ''000'' 0 (StartGame (Some ''basic'')),
      Message ''000'' 0 (SubmitWord ''b'' 1)] init_sys"

text \<open>Two connections paired by \<open>quick-match\<close> into room \<open>c3d\<close>; no dictionary is
  loaded and every random draw is 0.\<close>

definition matched_pair :: sys where
  "matched_pair = run [] (\<lambda>k. 0)
     [Message ''a1f'' 0 (QuickMatch None), Message ''c3d'' 1 (QuickMatch None)] init_sys"

section \<open>The letter-feasibility check\<close>

lemma cnt_of_count_letter:
  "cnt_of (count_letter l counts) c = cnt_of counts c + (if c = l then 1 else 0)"
  by (simp add: cnt_of_def count_letter_def)

lemma cnt_of_fold: "cnt_of (fold count_letter ls counts) c = cnt_of counts c + count (mset ls) c"
  by (induction ls arbitrary: counts) (simp_all add: cnt_of_count_letter)

lemma cnt_of_empty: "cnt_of Map.empty c = 0"
  by (simp add: cnt_of_def)

lemma canMake_loop_iff: "canMake_loop counts w \<longleftrightarrow> (\<forall>c. count (mset w) c \<le> cnt_of counts c)"
proof (induction w arbitrary: counts)
  case Nil
  show ?case by simp
next
  case (Cons ch rest)
  show ?case
  proof (cases "counts ch")
    case None
    then have "\<not> count (mset (ch # rest)) ch \<le> cnt_of counts ch"
      by (simp add: cnt_of_def)
    with None show ?thesis by auto
  next
    case (Some n)
    show ?thesis
    proof (cases "n = 0")
      case True
      with Some have "\<not> count (mset (ch # rest)) ch \<le> cnt_of counts ch"
        by (simp add: cnt_of_def)
      with Some True show ?thesis by auto
    next
      case False
      have upd: "cnt_of (counts(ch \<mapsto> n - 1)) c = (if c = ch then n - 1 else cnt_of counts c)" for c
        by (simp add: cnt_of_def)
      have "(\<forall>c. count (mset rest) c \<le> cnt_of (counts(ch \<mapsto> n - 1)) c)
            \<longleftrightarrow> (\<forall>c. count (mset (ch # rest)) c \<le> cnt_of counts c)"
      proof (intro iffI allI)
        fix c assume h: "\<forall>c. count (mset rest) c \<le> cnt_of (counts(ch \<mapsto> n - 1)) c"
        show "count (mset (ch # rest)) c \<le> cnt_of counts c"
          using h[rule_format, of c] Some False by (cases "c = ch") (auto simp: upd cnt_of_def)
      next
        fix c assume h: "\<forall>c. count (mset (ch # rest)) c \<le> cnt_of counts c"
        show "count (mset rest) c \<le> cnt_of (counts(ch \<mapsto> n - 1)) c"
          using h[rule_format, of c] Some False by (cases "c = ch") (auto simp: upd cnt_of_def)
      qed
      moreover have "canMake_loop counts (ch # rest) = canMake_loop (counts(ch \<mapsto> n - 1)) rest"
        using Some False by simp
      ultimately show ?thesis
        using Cons.IH[of "counts(ch \<mapsto> n - 1)"] by (simp only:)
    qed
  qed
qed

text \<open>\<open>canMake\<close> is the sub-multiset test on its two arguments exactly as given.\<close>

lemma canMake_iff_mset: "canMake w ls \<longleftrightarrow> mset w \<subseteq># mset ls"
  by (simp add: canMake_def canMake_loop_iff cnt_of_fold cnt_of_empty subseteq_mset_def)

text \<open>On a word that is already in lower case the check of \<open>isWordValid\<close> is the
  specification's test; the two examples of the specification are such words.\<close>

lemma canMake_lower_word:
  "toLowerCase w = w \<Longrightarrow> canMake w (toLowerCase ls) = canFormFromLetters_spec w ls"
  by (simp add: canMake_iff_mset canFormFromLetters_spec_def)

lemma canMake_spec_examples:
  "canMake ''aab'' (toLowerCase ''aab'') \<and> \<not> canMake ''aaa'' (toLowerCase ''aab'')"
  by (simp add: canMake_def count_letter_def toLowerCase_def toLowerCase_char_def)

text \<open>
  Claim C3: the letters-feasibility check of \<open>isWordValid\<close> is the case-insensitive
  multiset test. \<open>isWordValid\<close> lower-cases the letters, and the word for the dictionary
  lookup, but hands the word to \<open>canMake\<close> as submitted: the word \<open>AB\<close> is formable from
  the letters \<open>A\<close>, \<open>B\<close> by the specification's test, \<open>canMake\<close> refuses it, and
  \<open>isWordValid\<close> rejects it with a dictionary that holds \<open>ab\<close> as well as with none.
\<close>

theorem C3_upper_case_word_refused:
  "canFormFromLetters_spec ''AB'' ''AB''
   \<and> \<not> canMake ''AB'' (toLowerCase ''AB'')
   \<and> \<not> isWordValid [''ab''] ''AB'' ''AB''
   \<and> \<not> isWordValid [] ''AB'' ''AB''"
  by (simp add: canFormFromLetters_spec_def isWordValid_def canMake_def count_letter_def
        toLowerCase_def toLowerCase_char_def)

section \<open>Counting dictionary matches\<close>

text \<open>
  Claim C6, as the code has it: with no dictionary loaded \<open>countDictionaryMatches\<close>
  returns 5 for every candidate, whatever its letters.
\<close>

theorem C6_empty_dictionary_counts_five: "countDictionaryMatches [] lettersArr = 5"
  by (simp add: countDictionaryMatches_def)

text \<open>The claim as stated fails: without a dictionary the count of the empty letter
  sequence, from which no word can be formed, and of \<open>ABCDE\<close> are both the constant 5.\<close>

theorem C6_sentinel_counterexample:
  "countDictionaryMatches [] [] = 5 \<and> countDictionaryMatches [] ''ABCDE'' = 5"
  by (simp add: countDictionaryMatches_def)

lemma count_single_word: "countDictionaryMatches [w] ls \<le> 1"
  by (simp add: countDictionaryMatches_def)

section \<open>The letter-set generator\<close>

text \<open>When every draw is 0 a shuffle moves the first element to the end.\<close>

lemma shuffle_loop_zero:
  "i < length xs \<Longrightarrow>
   shuffle_loop (\<lambda>k. 0) i xs k = (rotate1 (take (Suc i) xs) @ drop (Suc i) xs, k + i)"
proof (induction i arbitrary: xs k)
  case 0
  then show ?case by (cases xs) simp_all
next
  case (Suc i)
  then obtain x ys where xs: "xs = x # ys" and i: "i < length ys"
    by (cases xs) auto
  have len: "i < length ((ys ! i) # ys[i := x])" using i by simp
  have "shuffle_loop (\<lambda>k. 0) (Suc i) xs k = shuffle_loop (\<lambda>k. 0) i ((ys ! i) # ys[i := x]) (k + 1)"
    by (simp add: xs)
  also have "\<dots> = (rotate1 (take (Suc i) ((ys ! i) # ys[i := x]))
                      @ drop (Suc i) ((ys ! i) # ys[i := x]), k + 1 + i)"
    by (rule Suc.IH[OF len])
  also have "rotate1 (take (Suc i) ((ys ! i) # ys[i := x])) @ drop (Suc i) ((ys ! i) # ys[i := x])
             = rotate1 (take (Suc (Suc i)) xs) @ drop (Suc (Suc i)) xs"
    using i by (simp add: xs take_Suc_conv_app_nth upd_conv_take_nth_drop)
  finally show ?case by simp
qed

lemma shuffleArray_zero:
  "xs \<noteq> [] \<Longrightarrow> shuffleArray (\<lambda>k. 0) xs k = (rotate1 xs, k + (length xs - 1))"
  using shuffle_loop_zero[of "length xs - 1" xs k] by (simp add: shuffleArray_def)

text \<open>When no candidate can qualify, the loop returns the first letters of the array as
  the shuffles left it: the last candidate it refused.\<close>

lemma pick_loop_exhausted:
  assumes low: "\<And>ls. countDictionaryMatches dict ls < n"
  shows "pick_loop dict rnd attempts sz n alpha k
      = (take sz (fst (shuffle_times rnd attempts alpha k)), snd (shuffle_times rnd attempts alpha k))"
proof (induction attempts arbitrary: alpha k)
  case 0
  show ?case by simp
next
  case (Suc attempts)
  have "\<not> n \<le> countDictionaryMatches dict (take sz (fst (shuffleArray rnd alpha k)))"
    using low[of "take sz (fst (shuffleArray rnd alpha k))"] by simp
  then show ?case by (simp add: Suc.IH)
qed

lemma pick_loop_zero_exhausted:
  assumes low: "\<And>ls. countDictionaryMatches dict ls < n"
  shows "alpha \<noteq> [] \<Longrightarrow>
    pick_loop dict (\<lambda>k. 0) attempts sz n alpha k
      = (take sz (rotate attempts alpha), k + attempts * (length alpha - 1))"
proof (induction attempts arbitrary: alpha k)
  case 0
  show ?case by simp
next
  case (Suc attempts)
  have sh: "shuffleArray (\<lambda>k. 0) alpha k = (rotate1 alpha, k + (length alpha - 1))"
    using Suc.prems by (rule shuffleArray_zero)
  have rej: "\<not> n \<le> countDictionaryMatches dict (take sz (rotate1 alpha))"
    using low[of "take sz (rotate1 alpha)"] by simp
  have ne: "rotate1 alpha \<noteq> []" using Suc.prems by simp
  have "pick_loop dict (\<lambda>k. 0) (Suc attempts) sz n alpha k
        = pick_loop dict (\<lambda>k. 0) attempts sz n (rotate1 alpha) (k + (length alpha - 1))"
    using rej by (simp add: sh)
  also have "\<dots> = (take sz (rotate attempts (rotate1 alpha)),
                    k + (length alpha - 1) + attempts * (length (rotate1 alpha) - 1))"
    by (rule Suc.IH[OF ne])
  finally show ?case by (simp add: rotate1_rotate_swap)
qed

lemma rotate_alphabet: "rotate 10000 alphabet = ''QRSTUVWXYZABCDEFGHIJKLMNOP''"
proof -
  have "rotate 10000 alphabet = rotate (10000 mod length alphabet) alphabet"
    by (rule rotate_conv_mod)
  also have "10000 mod length alphabet = 16" by (simp add: alphabet_def)
  also have "rotate 16 alphabet = ''QRSTUVWXYZABCDEFGHIJKLMNOP''"
    by (simp add: alphabet_def eval_nat_numeral)
  finally show ?thesis .
qed

text \<open>
  Claim C4: when the 10000 attempts are exhausted the result is the first \<open>poolSize\<close>
  letters of the alphabet. With the one-word dictionary \<open>zz\<close> no candidate of distinct
  letters reaches 3 words; with every draw 0 the generator then returns \<open>QRSTU\<close> for
  pool size 5, the start of the array as the last shuffle left it, and not \<open>ABCDE\<close>.
\<close>

theorem C4_fallback_reads_shuffled_array:
  "pickLettersWithAtLeastNWords [''zz''] (\<lambda>k. 0) 5 3 0 = (''QRSTU'', 250000)
   \<and> take 5 alphabet = ''ABCDE''"
proof -
  have low: "countDictionaryMatches [''zz''] ls < 3" for ls
    using count_single_word[of "''zz''" ls] by linarith
  have "pickLettersWithAtLeastNWords [''zz''] (\<lambda>k. 0) 5 3 0
        = (take 5 (rotate 10000 alphabet), 0 + 10000 * (length alphabet - 1))"
    unfolding pickLettersWithAtLeastNWords_def
    by (rule pick_loop_zero_exhausted[OF low]) (simp add: alphabet_def)
  then show ?thesis by (simp add: rotate_alphabet) (simp add: alphabet_def)
qed

lemma pick_loop_first:
  "n \<le> countDictionaryMatches dict (take sz (fst (shuffleArray rnd alpha k))) \<Longrightarrow> 0 < attempts \<Longrightarrow>
   pick_loop dict rnd attempts sz n alpha k
     = (take sz (fst (shuffleArray rnd alpha k)), snd (shuffleArray rnd alpha k))"
  by (cases attempts) simp_all

lemma pickLetters_empty_dict:
  "n \<le> 5 \<Longrightarrow> pickLettersWithAtLeastNWords [] rnd sz n k
     = (take sz (fst (shuffleArray rnd alphabet k)), snd (shuffleArray rnd alphabet k))"
  unfolding pickLettersWithAtLeastNWords_def
  by (rule pick_loop_first) (simp_all add: countDictionaryMatches_def)

section \<open>Game states and moves\<close>

lemma initGameState_zero:
  "initGameState [] (\<lambda>k. 0) m k =
     (\<lparr> mode = m,
        letters = take (if m = ''basic'' then 5 else if m = ''terrible'' then 10 else 20)
                    ''BCDEFGHIJKLMNOPQRSTUVWXYZA'',
        turn = 1, p1Score = 0, p2Score = 0, foundWords = [], foundWordsSet = {} \<rparr>, k + 25)"
  by (simp add: initGameState_def pickLetters_empty_dict shuffleArray_zero alphabet_def)

lemma initGameState_fresh:
  "turn (fst (initGameState dict rnd m k)) = 1"
  "p1Score (fst (initGameState dict rnd m k)) = 0"
  "p2Score (fst (initGameState dict rnd m k)) = 0"
  "foundWords (fst (initGameState dict rnd m k)) = []"
  "foundWordsSet (fst (initGameState dict rnd m k)) = {}"
  "mode (fst (initGameState dict rnd m k)) = m"
  by (simp_all add: initGameState_def)

text \<open>
  What the generator returns for every dictionary and every random source: a shuffle
  permutes its array with one draw for each index from the last down to 1, so a
  candidate is a prefix of a permutation of the alphabet, and the loop returns the first
  candidate that counts enough matches, or the prefix of the array after the last
  shuffle.
\<close>

lemma shuffle_loop_length: "length (fst (shuffle_loop rnd i xs k)) = length xs"
  by (induction i arbitrary: xs k) simp_all

lemma shuffle_loop_draws: "snd (shuffle_loop rnd i xs k) = k + i"
  by (induction i arbitrary: xs k) simp_all

lemma shuffle_loop_mset: "i < length xs \<Longrightarrow> mset (fst (shuffle_loop rnd i xs k)) = mset xs"
proof (induction i arbitrary: xs k)
  case 0
  show ?case by simp
next
  case (Suc i)
  have "rnd k mod (Suc i + 1) < Suc i + 1" by simp
  with Suc.prems have j: "rnd k mod (Suc i + 1) < length xs" by linarith
  have sw: "mset (xs[Suc i := xs ! (rnd k mod (Suc i + 1)), rnd k mod (Suc i + 1) := xs ! Suc i]) = mset xs"
    by (rule mset_swap[OF j Suc.prems])
  have "i < length (xs[Suc i := xs ! (rnd k mod (Suc i + 1)), rnd k mod (Suc i + 1) := xs ! Suc i])"
    using Suc.prems by simp
  from Suc.IH[OF this] sw show ?case by simp
qed

lemma shuffleArray_mset: "mset (fst (shuffleArray rnd xs k)) = mset xs"
  by (cases xs) (simp_all add: shuffleArray_def shuffle_loop_mset)

lemma shuffleArray_length: "length (fst (shuffleArray rnd xs k)) = length xs"
  by (simp add: shuffleArray_def shuffle_loop_length)

lemma shuffleArray_draws: "snd (shuffleArray rnd xs k) = k + (length xs - 1)"
  by (simp add: shuffleArray_def shuffle_loop_draws)

lemma pick_loop_perm:
  "\<exists>alpha'. mset alpha' = mset alpha \<and> fst (pick_loop dict rnd attempts sz n alpha k) = take sz alpha'"
proof (induction attempts arbitrary: alpha k)
  case 0
  show ?case by auto
next
  case (Suc attempts)
  show ?case
  proof (cases "n \<le> countDictionaryMatches dict (take sz (fst (shuffleArray rnd alpha k)))")
    case True
    then show ?thesis using shuffleArray_mset[of rnd alpha k] by auto
  next
    case False
    from Suc.IH[of "fst (shuffleArray rnd alpha k)" "snd (shuffleArray rnd alpha k)"]
    obtain alpha' where "mset alpha' = mset (fst (shuffleArray rnd alpha k))"
      and "fst (pick_loop dict rnd attempts sz n (fst (shuffleArray rnd alpha k))
                 (snd (shuffleArray rnd alpha k))) = take sz alpha'"
      by blast
    with False show ?thesis by (auto simp: shuffleArray_mset)
  qed
qed

lemma pick_loop_draws_mono: "k \<le> snd (pick_loop dict rnd attempts sz n alpha k)"
proof (induction attempts arbitrary: alpha k)
  case 0
  show ?case by simp
next
  case (Suc attempts)
  have "snd (shuffleArray rnd alpha k) \<le> snd (pick_loop dict rnd attempts sz n
          (fst (shuffleArray rnd alpha k)) (snd (shuffleArray rnd alpha k)))"
    by (rule Suc.IH)
  then show ?case by (auto simp: shuffleArray_draws)
qed

lemma pick_loop_draws:
  "0 < attempts \<Longrightarrow> k + (length alpha - 1) \<le> snd (pick_loop dict rnd attempts sz n alpha k)"
proof (cases attempts)
  case 0
  assume "0 < attempts" with 0 show ?thesis by simp
next
  case (Suc m)
  have "snd (shuffleArray rnd alpha k) \<le> snd (pick_loop dict rnd m sz n
          (fst (shuffleArray rnd alpha k)) (snd (shuffleArray rnd alpha k)))"
    by (rule pick_loop_draws_mono)
  with Suc show ?thesis by (auto simp: shuffleArray_draws)
qed

lemma pick_loop_result:
  "n \<le> countDictionaryMatches dict (fst (pick_loop dict rnd attempts sz n alpha k))
   \<or> pick_loop dict rnd attempts sz n alpha k
       = (take sz (fst (shuffle_times rnd attempts alpha k)), snd (shuffle_times rnd attempts alpha k))"
proof (induction attempts arbitrary: alpha k)
  case 0
  show ?case by simp
next
  case (Suc attempts)
  show ?case
  proof (cases "n \<le> countDictionaryMatches dict (take sz (fst (shuffleArray rnd alpha k)))")
    case True
    then show ?thesis by simp
  next
    case False
    with Suc.IH[of "fst (shuffleArray rnd alpha k)" "snd (shuffleArray rnd alpha k)"]
    show ?thesis by auto
  qed
qed

lemma alphabet_facts: "distinct alphabet" "length alphabet = 26"
  by (simp_all add: alphabet_def)

lemma pickLetters_generated:
  assumes "sz \<le> 26"
  shows "length (fst (pickLettersWithAtLeastNWords dict rnd sz n k)) = sz"
    and "distinct (fst (pickLettersWithAtLeastNWords dict rnd sz n k))"
    and "set (fst (pickLettersWithAtLeastNWords dict rnd sz n k)) \<subseteq> set alphabet"
    and "k + 25 \<le> snd (pickLettersWithAtLeastNWords dict rnd sz n k)"
proof -
  obtain alpha' where m: "mset alpha' = mset alphabet"
    and r: "fst (pickLettersWithAtLeastNWords dict rnd sz n k) = take sz alpha'"
    unfolding pickLettersWithAtLeastNWords_def using pick_loop_perm by blast
  from m have len: "length alpha' = 26" using mset_eq_length alphabet_facts(2) by metis
  from m have d: "distinct alpha'" using mset_eq_imp_distinct_iff alphabet_facts(1) by blast
  from m have s: "set alpha' = set alphabet" by (rule mset_eq_setD)
  show "length (fst (pickLettersWithAtLeastNWords dict rnd sz n k)) = sz"
    using assms len by (simp add: r)
  show "distinct (fst (pickLettersWithAtLeastNWords dict rnd sz n k))"
    using d by (simp add: r)
  show "set (fst (pickLettersWithAtLeastNWords dict rnd sz n k)) \<subseteq> set alphabet"
    using s set_take_subset[of sz alpha'] by (simp add: r)
  show "k + 25 \<le> snd (pickLettersWithAtLeastNWords dict rnd sz n k)"
    unfolding pickLettersWithAtLeastNWords_def
    using pick_loop_draws[where attempts = 10000 and k = k and alpha = alphabet and dict = dict
        and rnd = rnd and sz = sz and n = n] by (simp add: alphabet_facts)
qed

lemma pickLetters_result:
  "n \<le> countDictionaryMatches dict (fst (pickLettersWithAtLeastNWords dict rnd sz n k))
   \<or> fst (pickLettersWithAtLeastNWords dict rnd sz n k)
       = take sz (fst (shuffle_times rnd 10000 alphabet k))"
  using pick_loop_result[where n = n and dict = dict and rnd = rnd and attempts = 10000
        and sz = sz and alpha = alphabet and k = k]
  unfolding pickLettersWithAtLeastNWords_def by auto

lemma initGameState_generated:
  "mode (fst (initGameState dict rnd m k)) = m"
  "length (letters (fst (initGameState dict rnd m k)))
     = (if m = ''basic'' then 5 else if m = ''terrible'' then 10 else 20)"
  "distinct (letters (fst (initGameState dict rnd m k)))"
  "set (letters (fst (initGameState dict rnd m k))) \<subseteq> set alphabet"
  "k + 25 \<le> snd (initGameState dict rnd m k)"
  "3 \<le> countDictionaryMatches dict (letters (fst (initGameState dict rnd m k)))
   \<or> letters (fst (initGameState dict rnd m k))
       = take (if m = ''basic'' then 5 else if m = ''terrible'' then 10 else 20)
           (fst (shuffle_times rnd 10000 alphabet k))"
proof -
  let ?sz = "if m = ''basic'' then 5 else if m = ''terrible'' then 10 else (20::nat)"
  have sz: "?sz \<le> 26" by simp
  note g = pickLetters_generated[OF sz, where dict = dict and rnd = rnd and n = 3 and k = k]
  show "mode (fst (initGameState dict rnd m k)) = m" by (simp add: initGameState_def)
  show "length (letters (fst (initGameState dict rnd m k))) = ?sz"
    using g(1) by (simp add: initGameState_def)
  show "distinct (letters (fst (initGameState dict rnd m k)))"
    using g(2) by (simp add: initGameState_def)
  show "set (letters (fst (initGameState dict rnd m k))) \<subseteq> set alphabet"
    using g(3) by (simp add: initGameState_def)
  show "k + 25 \<le> snd (initGameState dict rnd m k)"
    using g(4) by (simp add: initGameState_def)
  have l: "letters (fst (initGameState dict rnd m k))
           = fst (pickLettersWithAtLeastNWords dict rnd ?sz 3 k)"
    by (simp add: initGameState_def)
  show "3 \<le> countDictionaryMatches dict (letters (fst (initGameState dict rnd m k)))
   \<or> letters (fst (initGameState dict rnd m k)) = take ?sz (fst (shuffle_times rnd 10000 alphabet k))"
    unfolding l by (rule pickLetters_result)
qed

lemma shuffle_times_length: "length (fst (shuffle_times rnd j alpha k)) = length alpha"
  by (induction j arbitrary: alpha k) (simp_all add: shuffleArray_length)

lemma shuffle_times_draws: "snd (shuffle_times rnd j alpha k) = k + j * (length alpha - 1)"
  by (induction j arbitrary: alpha k) (simp_all add: shuffleArray_length shuffleArray_draws)

lemma pick_loop_spec:
  "0 < attempts \<Longrightarrow>
   \<exists>j. 1 \<le> j \<and> j \<le> attempts
     \<and> pick_loop dict rnd attempts sz n alpha k
         = (take sz (fst (shuffle_times rnd j alpha k)), snd (shuffle_times rnd j alpha k))
     \<and> (n \<le> countDictionaryMatches dict (take sz (fst (shuffle_times rnd j alpha k))) \<or> j = attempts)
     \<and> (\<forall>i. 1 \<le> i \<and> i < j \<longrightarrow>
            countDictionaryMatches dict (take sz (fst (shuffle_times rnd i alpha k))) < n)"
proof (induction attempts arbitrary: alpha k)
  case 0
  then show ?case by simp
next
  case (Suc attempts)
  let ?a1 = "fst (shuffleArray rnd alpha k)" and ?k1 = "snd (shuffleArray rnd alpha k)"
  have one: "shuffle_times rnd 1 alpha k = (?a1, ?k1)" by simp
  show ?case
  proof (cases "n \<le> countDictionaryMatches dict (take sz ?a1)")
    case True
    then have "pick_loop dict rnd (Suc attempts) sz n alpha k = (take sz ?a1, ?k1)" by simp
    with True one show ?thesis by (intro exI[of _ 1]) simp
  next
    case False
    then have rec: "pick_loop dict rnd (Suc attempts) sz n alpha k
                    = pick_loop dict rnd attempts sz n ?a1 ?k1" by simp
    show ?thesis
    proof (cases attempts)
      case 0
      with rec one False show ?thesis by (intro exI[of _ 1]) simp
    next
      case (Suc m)
      then have "0 < attempts" by simp
      from Suc.IH[OF this, of ?a1 ?k1] obtain j where j: "1 \<le> j" "j \<le> attempts"
        and res: "pick_loop dict rnd attempts sz n ?a1 ?k1
           = (take sz (fst (shuffle_times rnd j ?a1 ?k1)), snd (shuffle_times rnd j ?a1 ?k1))"
        and fin: "n \<le> countDictionaryMatches dict (take sz (fst (shuffle_times rnd j ?a1 ?k1)))
                  \<or> j = attempts"
        and before: "\<forall>i. 1 \<le> i \<and> i < j \<longrightarrow>
            countDictionaryMatches dict (take sz (fst (shuffle_times rnd i ?a1 ?k1))) < n"
        by blast
      have st: "shuffle_times rnd (Suc i) alpha k = shuffle_times rnd i ?a1 ?k1" for i by simp
      have "\<forall>i. 1 \<le> i \<and> i < Suc j \<longrightarrow>
            countDictionaryMatches dict (take sz (fst (shuffle_times rnd i alpha k))) < n"
      proof (intro allI impI)
        fix i assume i: "1 \<le> i \<and> i < Suc j"
        show "countDictionaryMatches dict (take sz (fst (shuffle_times rnd i alpha k))) < n"
        proof (cases i)
          case 0
          with i show ?thesis by simp
        next
          case (Suc i')
          show ?thesis
          proof (cases "i' = 0")
            case True
            with Suc False show ?thesis by simp
          next
            case False
            with i Suc before have
              "countDictionaryMatches dict (take sz (fst (shuffle_times rnd i' ?a1 ?k1))) < n"
              by simp
            then show ?thesis by (simp only: Suc st)
          qed
        qed
      qed
      moreover have "pick_loop dict rnd (Suc attempts) sz n alpha k
         = (take sz (fst (shuffle_times rnd (Suc j) alpha k)), snd (shuffle_times rnd (Suc j) alpha k))"
        by (simp only: rec res st)
      moreover have "n \<le> countDictionaryMatches dict (take sz (fst (shuffle_times rnd (Suc j) alpha k)))
                  \<or> Suc j = Suc attempts"
        using fin by (simp only: st) simp
      ultimately show ?thesis using j by (intro exI[of _ "Suc j"]) simp
    qed
  qed
qed

lemma initGameState_spec:
  "\<exists>j. 1 \<le> j \<and> j \<le> 10000
     \<and> letters (fst (initGameState dict rnd m k))
         = take (if m = ''basic'' then 5 else if m = ''terrible'' then 10 else 20)
             (fst (shuffle_times rnd j alphabet k))
     \<and> snd (initGameState dict rnd m k) = k + 25 * j
     \<and> (3 \<le> countDictionaryMatches dict (letters (fst (initGameState dict rnd m k))) \<or> j = 10000)
     \<and> (\<forall>i. 1 \<le> i \<and> i < j \<longrightarrow>
            countDictionaryMatches dict
              (take (if m = ''basic'' then 5 else if m = ''terrible'' then 10 else 20)
                 (fst (shuffle_times rnd i alphabet k))) < 3)"
proof -
  define sz :: nat where "sz = (if m = ''basic'' then 5 else if m = ''terrible'' then 10 else 20)"
  have g: "initGameState dict rnd m k =
     (\<lparr> mode = m, letters = fst (pick_loop dict rnd 10000 sz 3 alphabet k),
        turn = 1, p1Score = 0, p2Score = 0, foundWords = [], foundWordsSet = {} \<rparr>,
      snd (pick_loop dict rnd 10000 sz 3 alphabet k))"
    by (simp add: initGameState_def pickLettersWithAtLeastNWords_def sz_def)
  have "(0::nat) < 10000" by simp
  from pick_loop_spec[OF this, of dict rnd sz 3 alphabet k]
  obtain j where j: "1 \<le> j" "j \<le> 10000"
    and res: "pick_loop dict rnd 10000 sz 3 alphabet k
       = (take sz (fst (shuffle_times rnd j alphabet k)), snd (shuffle_times rnd j alphabet k))"
    and fin: "3 \<le> countDictionaryMatches dict (take sz (fst (shuffle_times rnd j alphabet k)))
              \<or> j = 10000"
    and before: "\<forall>i. 1 \<le> i \<and> i < j \<longrightarrow>
            countDictionaryMatches dict (take sz (fst (shuffle_times rnd i alphabet k))) < 3"
    by blast
  have d: "snd (shuffle_times rnd j alphabet k) = k + 25 * j"
    by (simp add: shuffle_times_draws alphabet_facts)
  show ?thesis
    unfolding sz_def[symmetric]
    using j fin before by (intro exI[of _ j]) (simp add: g res d)
qed

lemma submit_word_Accepted:
  assumes "submit_word dict st w p = Accepted st'"
  shows "turn st' = (if p = 1 then 2 else 1)"
    and "foundWords st' = foundWords st @ [as_found (w, p)]"
    and "p1Score st' = p1Score st + (if p = 1 then length w else 0)"
    and "p2Score st' = p2Score st + (if p = 1 then 0 else length w)"
    and "letters st' = letters st"
  using assms by (auto simp: submit_word_def as_found_def split: if_splits)

lemmas eval_move = submit_word_def isWordValid_def canMake_def count_letter_def
  toLowerCase_def toLowerCase_char_def

text \<open>
  Claim C1: from \<open>turn = 1\<close>, after N accepted moves the turn is 1 for even N and 2 for
  odd N, whoever submitted. The handler sets the turn from the submitter's index (to 2
  after a move of player 1, to 1 after any other) under the comment \<open>toggle turn\<close>. In a
  fresh \<open>basic\<close> game with letters \<open>BCDEF\<close>, two accepted moves of player 1 leave
  \<open>turn = 2\<close>, and one accepted move of player 2 leaves \<open>turn = 1\<close>.
\<close>

theorem C1_turn_follows_submitter:
  "turn (fst (initGameState [] (\<lambda>k. 0) ''basic'' 0)) = 1
   \<and> map_option turn (accepted_moves [] (fst (initGameState [] (\<lambda>k. 0) ''basic'' 0))
                         [(''b'', 1), (''c'', 1)]) = Some 2
   \<and> map_option turn (accepted_moves [] (fst (initGameState [] (\<lambda>k. 0) ''basic'' 0))
                         [(''b'', 2)]) = Some 1"
  by (simp add: initGameState_zero eval_move)

lemma score_of_append: "score_of P (xs @ ys) = score_of P xs + score_of P ys"
  by (simp add: score_of_def)

lemma score_of_single: "score_of P [as_found (w, p)] = (if P p then length w else 0)"
  by (simp add: score_of_def as_found_def)

lemma score_of_cong:
  "(\<And>f. f \<in> set fws \<Longrightarrow> P (by_player f) = Q (by_player f)) \<Longrightarrow> score_of P fws = score_of Q fws"
  unfolding score_of_def by (induction fws) auto

lemma accepted_moves_scores:
  "accepted_moves dict st moves = Some st' \<Longrightarrow>
     foundWords st' = foundWords st @ map as_found moves
   \<and> p1Score st' = p1Score st + score_of (\<lambda>b. b = 1) (map as_found moves)
   \<and> p2Score st' = p2Score st + score_of (\<lambda>b. b \<noteq> 1) (map as_found moves)"
proof (induction moves arbitrary: st)
  case Nil
  then show ?case by (simp add: score_of_def)
next
  case (Cons mv rest)
  obtain w p where mv: "mv = (w, p)" by (cases mv)
  from Cons.prems obtain st1 where acc: "submit_word dict st w p = Accepted st1"
    and rest: "accepted_moves dict st1 rest = Some st'"
    by (auto simp: mv split: outcome.splits)
  note a = submit_word_Accepted[OF acc]
  from Cons.IH[OF rest] show ?case
    using score_of_append[of "\<lambda>b. b = 1" "[as_found (w, p)]" "map as_found rest"]
          score_of_append[of "\<lambda>b. b \<noteq> 1" "[as_found (w, p)]" "map as_found rest"]
    by (simp add: mv a score_of_single)
qed

text \<open>
  Claim C2, as the code has it: after any sequence of accepted moves on a freshly
  initialized game state, \<open>p1Score\<close> is the sum of the lengths of the found words whose
  \<open>by\<close> is 1, and \<open>p2Score\<close> is the sum of the lengths of the found words whose \<open>by\<close>
  is not 1; when every \<open>by\<close> is 1 or 2, \<open>p2Score\<close> is the sum over the words whose \<open>by\<close>
  is 2.
\<close>

theorem C2_scores_match_found_words:
  assumes "accepted_moves dict (fst (initGameState dict rnd m k)) moves = Some st"
  shows "p1Score st = score_of (\<lambda>b. b = 1) (foundWords st)
       \<and> p2Score st = score_of (\<lambda>b. b \<noteq> 1) (foundWords st)
       \<and> ((\<forall>f \<in> set (foundWords st). by_player f = 1 \<or> by_player f = 2)
            \<longrightarrow> p2Score st = score_of (\<lambda>b. b = 2) (foundWords st))"
proof -
  from accepted_moves_scores[OF assms]
  have 1: "p1Score st = score_of (\<lambda>b. b = 1) (foundWords st)"
    and 2: "p2Score st = score_of (\<lambda>b. b \<noteq> 1) (foundWords st)"
    by (simp_all add: initGameState_fresh)
  have "p2Score st = score_of (\<lambda>b. b = 2) (foundWords st)"
    if "\<forall>f \<in> set (foundWords st). by_player f = 1 \<or> by_player f = 2"
  proof -
    have "score_of (\<lambda>b. b \<noteq> 1) (foundWords st) = score_of (\<lambda>b. b = 2) (foundWords st)"
      by (rule score_of_cong) (use that in auto)
    with 2 show ?thesis by simp
  qed
  with 1 2 show ?thesis by blast
qed

text \<open>The theorem at a fresh \<open>basic\<close> game in which player 1 finds \<open>b\<close> and player 2
  finds \<open>c\<close>.\<close>

theorem C2_scores_witness:
  "accepted_moves [] (fst (initGameState [] (\<lambda>k. 0) ''basic'' 0)) [(''b'', 1), (''c'', 2)]
     = Some \<lparr> mode = ''basic'', letters = ''BCDEF'', turn = 1, p1Score = 1, p2Score = 1,
              foundWords = [\<lparr> word = ''b'', by_player = 1 \<rparr>, \<lparr> word = ''c'', by_player = 2 \<rparr>],
              foundWordsSet = {''c'', ''b''} \<rparr>
   \<and> score_of (\<lambda>b. b = 1) [\<lparr> word = ''b'', by_player = 1 \<rparr>, \<lparr> word = ''c'', by_player = 2 \<rparr>] = 1
   \<and> score_of (\<lambda>b. b = 2) [\<lparr> word = ''b'', by_player = 1 \<rparr>, \<lparr> word = ''c'', by_player = 2 \<rparr>] = 1"
proof -
  have h: "accepted_moves [] (fst (initGameState [] (\<lambda>k. 0) ''basic'' 0)) [(''b'', 1), (''c'', 2)]
     = Some \<lparr> mode = ''basic'', letters = ''BCDEF'', turn = 1, p1Score = 1, p2Score = 1,
              foundWords = [\<lparr> word = ''b'', by_player = 1 \<rparr>, \<lparr> word = ''c'', by_player = 2 \<rparr>],
              foundWordsSet = {''c'', ''b''} \<rparr>"
    by (simp add: initGameState_zero eval_move)
  from C2_scores_match_found_words[OF h] h show ?thesis by simp
qed

text \<open>The claim as stated fails: a move sent with player index 3 is accepted, adds to
  \<open>p2Score\<close> and is recorded with \<open>by = 3\<close>, so \<open>p2Score\<close> is 1 while the found words
  whose \<open>by\<close> is 2 sum to 0.\<close>

theorem C2_other_index_counterexample:
  "accepted_moves [] (fst (initGameState [] (\<lambda>k. 0) ''basic'' 0)) [(''b'', 3)]
     = Some \<lparr> mode = ''basic'', letters = ''BCDEF'', turn = 1, p1Score = 0, p2Score = 1,
              foundWords = [\<lparr> word = ''b'', by_player = 3 \<rparr>], foundWordsSet = {''b''} \<rparr>
   \<and> score_of (\<lambda>b. b = 2) [\<lparr> word = ''b'', by_player = 3 \<rparr>] = 0"
  by (simp add: initGameState_zero eval_move score_of_def)

section \<open>Joining a room\<close>

text \<open>A successful \<open>join-room\<close> appends the joiner and stores a newly generated state,
  whatever state the room had.\<close>

lemma join_room_success:
  assumes "rooms s r = Some rm" and "length (players rm) < 2"
  shows "on_message dict rnd newId ws (JoinRoom r m) s
        = (s\<lparr> rooms := (rooms s)(r \<mapsto>
                   rm\<lparr> players := players rm @ [ws],
                       state := Some (fst (initGameState dict rnd (mode_or_versus m) (draws s))) \<rparr>),
                roomId := (roomId s)(ws := Some r),
                draws := snd (initGameState dict rnd (mode_or_versus m) (draws s)) \<rparr>,
           to_players (players rm @ [ws])
             (\<lambda>i. RoomJoined r i (fst (initGameState dict rnd (mode_or_versus m) (draws s)))))"
  using assms by (simp add: join_room_def)

lemma host_playing_room:
  "rooms host_playing ''b2e'' = Some \<lparr> rid = ''b2e'', players = [0],
        state = Some \<lparr> mode = ''basic'', letters = ''BCDEF'', turn = 2, p1Score = 1, p2Score = 0,
           foundWords = [\<lparr> word = ''b'', by_player = 1 \<rparr>], foundWordsSet = {''b''} \<rparr> \<rparr>"
  by (simp add: host_playing_def create_room_def start_game_def submit_word_handler_def init_sys_def
        initGameState_zero mode_or_versus_def eval_move)

text \<open>
  Claim C5: a successful \<open>join-room\<close> appends the joiner as player 2 and leaves a
  GameState already present in the room unchanged. The handler appends the joiner, but
  it assigns a new state unconditionally, where \<open>start-game\<close> tests \<open>!room.state\<close>
  first: the host of room \<open>b2e\<close> has started a \<open>basic\<close> game and scored 1, and the join of
  connection 1 replaces that state by a fresh \<open>versus\<close> state with both scores 0.
\<close>

theorem C5_join_replaces_state:
  "rooms host_playing ''b2e'' = Some \<lparr> rid = ''b2e'', players = [0],
        state = Some \<lparr> mode = ''basic'', letters = ''BCDEF'', turn = 2, p1Score = 1, p2Score = 0,
           foundWords = [\<lparr> word = ''b'', by_player = 1 \<rparr>], foundWordsSet = {''b''} \<rparr> \<rparr>
   \<and> rooms (fst (step [] (\<lambda>k. 0) (Message ''000'' 1 (JoinRoom ''b2e'' None)) host_playing)) ''b2e''
      = Some \<lparr> rid = ''b2e'', players = [0, 1],
          state = Some \<lparr> mode = ''versus'', letters = ''BCDEFGHIJKLMNOPQRSTU'', turn = 1,
             p1Score = 0, p2Score = 0, foundWords = [], foundWordsSet = {} \<rparr> \<rparr>"
  by (simp add: join_room_def host_playing_room initGameState_zero mode_or_versus_def)

lemma matched_pair_room:
  "rooms matched_pair ''c3d'' = Some \<lparr> rid = ''c3d'', players = [0, 1],
        state = Some \<lparr> mode = ''versus'', letters = ''BCDEFGHIJKLMNOPQRSTU'', turn = 1,
           p1Score = 0, p2Score = 0, foundWords = [], foundWordsSet = {} \<rparr> \<rparr>"
  by (simp add: matched_pair_def quick_match_def init_sys_def initGameState_zero mode_or_versus_def)

text \<open>
  Claim C8: a \<open>join-room\<close> for a room that already holds 2 players is answered with the
  error \<open>Room full\<close> to the joiner alone, and the whole server state, with the room's
  player list and GameState, is unchanged.
\<close>

theorem C8_join_full_room:
  assumes "rooms s r = Some rm" and "2 \<le> length (players rm)"
  shows "on_message dict rnd newId ws (JoinRoom r m) s = (s, [(ws, ErrorMsg ''Room full'')])"
  using assms by (simp add: join_room_def)

theorem C8_join_full_room_witness:
  "rooms matched_pair ''c3d'' = Some \<lparr> rid = ''c3d'', players = [0, 1],
        state = Some \<lparr> mode = ''versus'', letters = ''BCDEFGHIJKLMNOPQRSTU'', turn = 1,
           p1Score = 0, p2Score = 0, foundWords = [], foundWordsSet = {} \<rparr> \<rparr>
   \<and> on_message [] (\<lambda>k. 0) ''000'' 2 (JoinRoom ''c3d'' None) matched_pair
       = (matched_pair, [(2, ErrorMsg ''Room full'')])"
proof -
  have len: "2 \<le> length (players \<lparr> rid = ''c3d'', players = [0, 1],
        state = Some \<lparr> mode = ''versus'', letters = ''BCDEFGHIJKLMNOPQRSTU'', turn = 1,
           p1Score = 0, p2Score = 0, foundWords = [], foundWordsSet = {} \<rparr> \<rparr>)"
    by simp
  from C8_join_full_room[OF matched_pair_room len, of "[]" "\<lambda>k. 0" "''000''" 2 None] matched_pair_room
  show ?thesis by simp
qed

section \<open>Quick match\<close>

text \<open>
  Claim C9: from an empty waiting queue, \<open>quick-match\<close> from connection \<open>a\<close> and then
  from connection \<open>b\<close> creates exactly one room, with \<open>a\<close> as player 1, \<open>b\<close> as player 2
  and a freshly generated GameState, and leaves the queue empty. The first event only
  enqueues \<open>a\<close> and answers \<open>waiting\<close>; the second stores the new room under the drawn
  identifier, changes no other entry of \<open>rooms\<close>, and sends \<open>matched\<close> with index 1 to
  \<open>a\<close> and index 2 to \<open>b\<close>. The state is that of a game not yet played (turn 1, scores
  0, no found words) in the requested mode; its letters are 5, 10 or 20 distinct letters
  of the alphabet according to the mode, namely the start of the alphabet array after
  \<open>j\<close> shuffles made with the next \<open>25 * j\<close> random draws, where \<open>j\<close> is the first
  attempt whose candidate counts at least 3 dictionary matches, or 10000 when there is
  none. Nothing in it depends on \<open>a\<close> and \<open>b\<close> being distinct.
\<close>

theorem C9_quick_match_pairs:
  assumes "waiting s = []"
  shows "step dict rnd (Message id1 a (QuickMatch m1)) s = (s\<lparr> waiting := [a] \<rparr>, [(a, Waiting)])
    \<and> step dict rnd (Message id2 b (QuickMatch m2))
         (fst (step dict rnd (Message id1 a (QuickMatch m1)) s))
        = (s\<lparr> waiting := [],
               rooms := (rooms s)(id2 \<mapsto>
                  \<lparr> rid = id2, players = [a, b],
                    state = Some (fst (initGameState dict rnd (mode_or_versus m2) (draws s))) \<rparr>),
               roomId := (roomId s)(a := Some id2, b := Some id2),
               draws := snd (initGameState dict rnd (mode_or_versus m2) (draws s)) \<rparr>,
           [(a, Matched id2 1 (fst (initGameState dict rnd (mode_or_versus m2) (draws s)))),
            (b, Matched id2 2 (fst (initGameState dict rnd (mode_or_versus m2) (draws s))))])
    \<and> turn (fst (initGameState dict rnd (mode_or_versus m2) (draws s))) = 1
    \<and> p1Score (fst (initGameState dict rnd (mode_or_versus m2) (draws s))) = 0
    \<and> p2Score (fst (initGameState dict rnd (mode_or_versus m2) (draws s))) = 0
    \<and> foundWords (fst (initGameState dict rnd (mode_or_versus m2) (draws s))) = []
    \<and> foundWordsSet (fst (initGameState dict rnd (mode_or_versus m2) (draws s))) = {}
    \<and> mode (fst (initGameState dict rnd (mode_or_versus m2) (draws s))) = mode_or_versus m2
    \<and> length (letters (fst (initGameState dict rnd (mode_or_versus m2) (draws s))))
        = (if mode_or_versus m2 = ''basic'' then 5
           else if mode_or_versus m2 = ''terrible'' then 10 else 20)
    \<and> distinct (letters (fst (initGameState dict rnd (mode_or_versus m2) (draws s))))
    \<and> set (letters (fst (initGameState dict rnd (mode_or_versus m2) (draws s)))) \<subseteq> set alphabet
    \<and> (\<exists>j. 1 \<le> j \<and> j \<le> 10000
          \<and> letters (fst (initGameState dict rnd (mode_or_versus m2) (draws s)))
              = take (if mode_or_versus m2 = ''basic'' then 5
                      else if mode_or_versus m2 = ''terrible'' then 10 else 20)
                  (fst (shuffle_times rnd j alphabet (draws s)))
          \<and> snd (initGameState dict rnd (mode_or_versus m2) (draws s)) = draws s + 25 * j
          \<and> (3 \<le> countDictionaryMatches dict
                    (letters (fst (initGameState dict rnd (mode_or_versus m2) (draws s))))
              \<or> j = 10000)
          \<and> (\<forall>i. 1 \<le> i \<and> i < j \<longrightarrow>
                 countDictionaryMatches dict
                   (take (if mode_or_versus m2 = ''basic'' then 5
                          else if mode_or_versus m2 = ''terrible'' then 10 else 20)
                      (fst (shuffle_times rnd i alphabet (draws s)))) < 3))"
proof -
  let ?g = "fst (initGameState dict rnd (mode_or_versus m2) (draws s))"
  have first: "step dict rnd (Message id1 a (QuickMatch m1)) s
               = (s\<lparr> waiting := [a] \<rparr>, [(a, Waiting)])"
    using assms by (simp add: quick_match_def)
  have second: "step dict rnd (Message id2 b (QuickMatch m2))
         (fst (step dict rnd (Message id1 a (QuickMatch m1)) s))
        = (s\<lparr> waiting := [],
               rooms := (rooms s)(id2 \<mapsto> \<lparr> rid = id2, players = [a, b], state = Some ?g \<rparr>),
               roomId := (roomId s)(a := Some id2, b := Some id2),
               draws := snd (initGameState dict rnd (mode_or_versus m2) (draws s)) \<rparr>,
           [(a, Matched id2 1 ?g), (b, Matched id2 2 ?g)])"
    using assms by (simp add: quick_match_def)
  note fresh = initGameState_fresh[where dict = dict and rnd = rnd and m = "mode_or_versus m2"
      and k = "draws s"]
  note gen = initGameState_generated[where dict = dict and rnd = rnd and m = "mode_or_versus m2"
      and k = "draws s"]
  note spec = initGameState_spec[where dict = dict and rnd = rnd and m = "mode_or_versus m2"
      and k = "draws s"]
  show ?thesis
    by (intro conjI) (rule first second fresh gen spec)+
qed

theorem C9_quick_match_pairs_witness:
  "waiting init_sys = []
   \<and> waiting (run [] (\<lambda>k. 0)
        [Message ''a1f'' 0 (QuickMatch None), Message ''c3d'' 1 (QuickMatch None)] init_sys) = []
   \<and> rooms (run [] (\<lambda>k. 0)
        [Message ''a1f'' 0 (QuickMatch None), Message ''c3d'' 1 (QuickMatch None)] init_sys) ''c3d''
       = Some \<lparr> rid = ''c3d'', players = [0, 1],
           state = Some \<lparr> mode = ''versus'', letters = ''BCDEFGHIJKLMNOPQRSTU'', turn = 1,
              p1Score = 0, p2Score = 0, foundWords = [], foundWordsSet = {} \<rparr> \<rparr>"
proof -
  have h: "waiting init_sys = []" by (simp add: init_sys_def)
  from C9_quick_match_pairs[OF h, of "[]" "\<lambda>k. 0" "''a1f''" 0 None "''c3d''" 1 None]
  have "step [] (\<lambda>k. 0) (Message ''c3d'' 1 (QuickMatch None))
         (fst (step [] (\<lambda>k. 0) (Message ''a1f'' 0 (QuickMatch None)) init_sys))
        = (init_sys\<lparr> waiting := [],
               rooms := (rooms init_sys)(''c3d'' \<mapsto>
                  \<lparr> rid = ''c3d'', players = [0, 1],
                    state = Some (fst (initGameState [] (\<lambda>k. 0) (mode_or_versus None) (draws init_sys))) \<rparr>),
               roomId := (roomId init_sys)(0 := Some ''c3d'', 1 := Some ''c3d''),
               draws := snd (initGameState [] (\<lambda>k. 0) (mode_or_versus None) (draws init_sys)) \<rparr>,
           [(0, Matched ''c3d'' 1 (fst (initGameState [] (\<lambda>k. 0) (mode_or_versus None) (draws init_sys)))),
            (1, Matched ''c3d'' 2 (fst (initGameState [] (\<lambda>k. 0) (mode_or_versus None) (draws init_sys))))])"
    by (elim conjE)
  then have "run [] (\<lambda>k. 0)
        [Message ''a1f'' 0 (QuickMatch None), Message ''c3d'' 1 (QuickMatch None)] init_sys
       = init_sys\<lparr> waiting := [],
               rooms := (rooms init_sys)(''c3d'' \<mapsto>
                  \<lparr> rid = ''c3d'', players = [0, 1],
                    state = Some (fst (initGameState [] (\<lambda>k. 0) (mode_or_versus None) (draws init_sys))) \<rparr>),
               roomId := (roomId init_sys)(0 := Some ''c3d'', 1 := Some ''c3d''),
               draws := snd (initGameState [] (\<lambda>k. 0) (mode_or_versus None) (draws init_sys)) \<rparr>"
    by (simp only: run.simps fst_conv)
  with h show ?thesis
    by (simp add: initGameState_zero mode_or_versus_def)
qed

text \<open>
  Claim C10: when the connection that is the only member of the waiting queue sends
  \<open>quick-match\<close> again, it is dequeued and paired with itself: the new room has that
  connection as player 1 and as player 2, and the connection is sent two \<open>matched\<close>
  replies, with player indices 1 and 2.
\<close>

theorem C10_quick_match_with_itself:
  assumes "waiting s = [a]"
  shows "step dict rnd (Message newId a (QuickMatch m)) s
        = (s\<lparr> waiting := [],
               rooms := (rooms s)(newId \<mapsto>
                  \<lparr> rid = newId, players = [a, a],
                    state = Some (fst (initGameState dict rnd (mode_or_versus m) (draws s))) \<rparr>),
               roomId := (roomId s)(a := Some newId),
               draws := snd (initGameState dict rnd (mode_or_versus m) (draws s)) \<rparr>,
           [(a, Matched newId 1 (fst (initGameState dict rnd (mode_or_versus m) (draws s)))),
            (a, Matched newId 2 (fst (initGameState dict rnd (mode_or_versus m) (draws s))))])"
  using assms by (simp add: quick_match_def)

theorem C10_quick_match_with_itself_witness:
  "waiting (fst (step [] (\<lambda>k. 0) (Message ''a1f'' 0 (QuickMatch None)) init_sys)) = [0]
   \<and> map_option players
        (rooms (run [] (\<lambda>k. 0)
           [Message ''a1f'' 0 (QuickMatch None), Message ''c3d'' 0 (QuickMatch None)] init_sys) ''c3d'')
       = Some [0, 0]
   \<and> map (\<lambda>x. fst x) (snd (step [] (\<lambda>k. 0) (Message ''c3d'' 0 (QuickMatch None))
        (fst (step [] (\<lambda>k. 0) (Message ''a1f'' 0 (QuickMatch None)) init_sys)))) = [0, 0]"
proof -
  have h: "waiting (fst (step [] (\<lambda>k. 0) (Message ''a1f'' 0 (QuickMatch None)) init_sys)) = [0]"
    by (simp add: quick_match_def init_sys_def)
  from C10_quick_match_with_itself[OF h, of "[]" "\<lambda>k. 0" "''c3d''" None] h
  show ?thesis by simp
qed

section \<open>The waiting queue and room membership\<close>

text \<open>
  Claim C7: a connection in the waiting queue is assigned to no room, in every
  reachable state. \<open>create-room\<close> does not take its sender out of the waiting queue:
  connection 0 sends \<open>quick-match\<close> and is queued, then sends \<open>create-room\<close>, and is
  then in the queue while its \<open>roomId\<close> points to the live room \<open>b2e\<close> whose player it
  is. The \<open>close\<close> listener, which dequeues only a connection that has no live room,
  relies on the two being exclusive: when connection 0 closes, its room is deleted and it
  stays in the queue, and the next \<open>quick-match\<close>, from connection 1, is paired with the
  closed connection.
\<close>

theorem C7_queued_connection_in_room:
  "0 \<in> set (waiting (run [] (\<lambda>k. 0)
        [Message ''a1f'' 0 (QuickMatch None), Message ''b2e'' 0 CreateRoom] init_sys))
   \<and> roomId (run [] (\<lambda>k. 0)
        [Message ''a1f'' 0 (QuickMatch None), Message ''b2e'' 0 CreateRoom] init_sys) 0 = Some ''b2e''
   \<and> rooms (run [] (\<lambda>k. 0)
        [Message ''a1f'' 0 (QuickMatch None), Message ''b2e'' 0 CreateRoom] init_sys) ''b2e''
       = Some \<lparr> rid = ''b2e'', players = [0], state = None \<rparr>
   \<and> waiting (run [] (\<lambda>k. 0)
        [Message ''a1f'' 0 (QuickMatch None), Message ''b2e'' 0 CreateRoom,
         Close (\<lambda>p. p \<noteq> 0) 0] init_sys) = [0]
   \<and> rooms (run [] (\<lambda>k. 0)
        [Message ''a1f'' 0 (QuickMatch None), Message ''b2e'' 0 CreateRoom,
         Close (\<lambda>p. p \<noteq> 0) 0] init_sys) ''b2e'' = None
   \<and> map_option players (rooms (run [] (\<lambda>k. 0)
        [Message ''a1f'' 0 (QuickMatch None), Message ''b2e'' 0 CreateRoom,
         Close (\<lambda>p. p \<noteq> 0) 0, Message ''c3d'' 1 (QuickMatch None)] init_sys) ''c3d'')
       = Some [0, 1]"
  by (simp add: quick_match_def create_room_def on_close_def init_sys_def)

end
